theory Spec2Isabelle
  imports Complex_Main
begin

section \<open>JavaScript values used by the financial core\<close>

subsection \<open>Numbers\<close>

text \<open>
  A JavaScript number is an IEEE 754 binary64 value.  The model keeps the four kinds of
  value the code can tell apart: a finite number, the two infinities and NaN.  A finite
  number is carried as the exact real it denotes: rounding of an in-range result to 53
  bits is not modelled, and the sign of zero is not tracked.  What is modelled is where a
  result leaves the finite range: a magnitude at or above \<open>2^1024 - 2^970\<close> becomes an
  infinity, a magnitude at or below \<open>2^-1075\<close> becomes zero (round to nearest, ties to
  even).
\<close>

datatype jsnum = Fin real | PosInf | NegInf | NaN

definition dbl_overflow :: real where
  "dbl_overflow = 2 ^ 1024 - 2 ^ 970"

definition dbl_underflow :: real where
  "dbl_underflow = 1 / 2 ^ 1075"

definition toDouble :: "real \<Rightarrow> jsnum" where
  "toDouble r =
     (if dbl_overflow \<le> r then PosInf
      else if r \<le> - dbl_overflow then NegInf
      else if \<bar>r\<bar> \<le> dbl_underflow then Fin 0
      else Fin r)"

text \<open>\<open>a - b\<close>\<close>

fun js_sub :: "jsnum \<Rightarrow> jsnum \<Rightarrow> jsnum" where
  "js_sub NaN _ = NaN"
| "js_sub _ NaN = NaN"
| "js_sub (Fin a) (Fin b) = toDouble (a - b)"
| "js_sub (Fin a) PosInf = NegInf"
| "js_sub (Fin a) NegInf = PosInf"
| "js_sub PosInf PosInf = NaN"
| "js_sub PosInf _ = PosInf"
| "js_sub NegInf NegInf = NaN"
| "js_sub NegInf _ = NegInf"

text \<open>\<open>a * b\<close>\<close>

fun js_mul :: "jsnum \<Rightarrow> jsnum \<Rightarrow> jsnum" where
  "js_mul NaN _ = NaN"
| "js_mul _ NaN = NaN"
| "js_mul (Fin a) (Fin b) = toDouble (a * b)"
| "js_mul (Fin a) PosInf = (if a = 0 then NaN else if 0 < a then PosInf else NegInf)"
| "js_mul (Fin a) NegInf = (if a = 0 then NaN else if 0 < a then NegInf else PosInf)"
| "js_mul PosInf (Fin b) = (if b = 0 then NaN else if 0 < b then PosInf else NegInf)"
| "js_mul NegInf (Fin b) = (if b = 0 then NaN else if 0 < b then NegInf else PosInf)"
| "js_mul PosInf PosInf = PosInf"
| "js_mul PosInf NegInf = NegInf"
| "js_mul NegInf PosInf = NegInf"
| "js_mul NegInf NegInf = PosInf"

text \<open>\<open>a / b\<close>; a zero divisor is taken as \<open>+0\<close>.\<close>

fun js_div :: "jsnum \<Rightarrow> jsnum \<Rightarrow> jsnum" where
  "js_div NaN _ = NaN"
| "js_div _ NaN = NaN"
| "js_div (Fin a) (Fin b) =
     (if b = 0 then (if a = 0 then NaN else if 0 < a then PosInf else NegInf)
      else toDouble (a / b))"
| "js_div (Fin a) _ = Fin 0"
| "js_div PosInf (Fin b) = (if 0 \<le> b then PosInf else NegInf)"
| "js_div NegInf (Fin b) = (if 0 \<le> b then NegInf else PosInf)"
| "js_div _ _ = NaN"

text \<open>
  \<open>Math.pow(base, exponent)\<close>, by the cases of \<open>Number::exponentiate\<close>.  An integral
  exponent is one equal to its floor; it is odd when that floor is.
\<close>

definition is_integral :: "real \<Rightarrow> bool" where
  "is_integral e \<longleftrightarrow> of_int \<lfloor>e\<rfloor> = e"

definition is_odd_integral :: "real \<Rightarrow> bool" where
  "is_odd_integral e \<longleftrightarrow> is_integral e \<and> odd \<lfloor>e\<rfloor>"

fun js_pow :: "jsnum \<Rightarrow> jsnum \<Rightarrow> jsnum" where
  "js_pow _ NaN = NaN"
| "js_pow b (Fin e) =
     (if e = 0 then Fin 1
      else case b of
        NaN \<Rightarrow> NaN
      | PosInf \<Rightarrow> (if 0 < e then PosInf else Fin 0)
      | NegInf \<Rightarrow> (if 0 < e then (if is_odd_integral e then NegInf else PosInf) else Fin 0)
      | Fin x \<Rightarrow>
          (if x = 0 then (if 0 < e then Fin 0 else PosInf)
           else if 0 < x then toDouble (x powr e)
           else if is_integral e
             then toDouble ((if odd \<lfloor>e\<rfloor> then - 1 else 1) * (\<bar>x\<bar> powr e))
           else NaN))"
| "js_pow b PosInf =
     (case b of
        NaN \<Rightarrow> NaN
      | Fin x \<Rightarrow> (if 1 < \<bar>x\<bar> then PosInf else if \<bar>x\<bar> = 1 then NaN else Fin 0)
      | _ \<Rightarrow> PosInf)"
| "js_pow b NegInf =
     (case b of
        NaN \<Rightarrow> NaN
      | Fin x \<Rightarrow> (if 1 < \<bar>x\<bar> then Fin 0 else if \<bar>x\<bar> = 1 then NaN else PosInf)
      | _ \<Rightarrow> Fin 0)"

text \<open>\<open>a <= b\<close>, \<open>a > b\<close> and \<open>a !== b\<close>: every comparison with NaN is false, so
  \<open>NaN !== b\<close> is true.\<close>

fun js_le :: "jsnum \<Rightarrow> jsnum \<Rightarrow> bool" where
  "js_le NaN _ = False"
| "js_le _ NaN = False"
| "js_le (Fin a) (Fin b) = (a \<le> b)"
| "js_le NegInf _ = True"
| "js_le _ PosInf = True"
| "js_le _ _ = False"


definition js_strict_ne :: "jsnum \<Rightarrow> jsnum \<Rightarrow> bool" where
  "js_strict_ne a b \<longleftrightarrow> a = NaN \<or> b = NaN \<or> a \<noteq> b"

subsection \<open>Strings\<close>

text \<open>
  A JavaScript string is a sequence of UTF-16 code units; a code unit is modelled as a
  natural number.  \<open>js\<close> turns an ASCII literal into such a string.
\<close>

type_synonym jsstring = "nat list"

definition js :: "string \<Rightarrow> jsstring" where
  "js s = map of_char s"

definition isDigit :: "nat \<Rightarrow> bool" where
  "isDigit c \<longleftrightarrow> 48 \<le> c \<and> c \<le> 57"

text \<open>White space and line terminators of ECMAScript (what \<open>trim\<close> and \<open>parseFloat\<close> skip).\<close>

definition isWhiteSpace :: "nat \<Rightarrow> bool" where
  "isWhiteSpace c \<longleftrightarrow>
     c \<in> set [0x09, 0x0A, 0x0B, 0x0C, 0x0D, 0x20, 0xA0, 0x1680, 0x2000, 0x2001, 0x2002,
       0x2003, 0x2004, 0x2005, 0x2006, 0x2007, 0x2008, 0x2009, 0x200A, 0x2028, 0x2029,
       0x202F, 0x205F, 0x3000, 0xFEFF]"

definition trimStart :: "jsstring \<Rightarrow> jsstring" where
  "trimStart s = dropWhile isWhiteSpace s"


subsection \<open>parseFloat\<close>

text \<open>
  \<open>parseFloat\<close> skips leading white space, reads the longest prefix that is a
  \<open>StrDecimalLiteral\<close> (an optional sign, then \<open>Infinity\<close> or decimal digits with an
  optional fraction and an optional exponent) and ignores what follows; it is NaN when
  there is no such prefix.
\<close>

fun digitsValue :: "jsstring \<Rightarrow> nat" where
  "digitsValue ds = foldl (\<lambda>acc d. 10 * acc + (d - 48)) 0 ds"

definition isPrefix :: "jsstring \<Rightarrow> jsstring \<Rightarrow> bool" where
  "isPrefix p s \<longleftrightarrow> take (length p) s = p"

text \<open>The exponent part \<open>e[+-]digits\<close> at the head of the text, 0 when there is none.\<close>

definition exponentPart :: "jsstring \<Rightarrow> int" where
  "exponentPart s =
     (case s of
        [] \<Rightarrow> 0
      | c # r \<Rightarrow>
          if c = 101 \<or> c = 69 then
            (case r of
               [] \<Rightarrow> 0
             | d # r' \<Rightarrow>
                 if d = 45 then
                   (if takeWhile isDigit r' = [] then 0
                    else - int (digitsValue (takeWhile isDigit r')))
                 else if d = 43 then int (digitsValue (takeWhile isDigit r'))
                 else int (digitsValue (takeWhile isDigit r)))
          else 0)"

definition scale10 :: "real \<Rightarrow> int \<Rightarrow> real" where
  "scale10 m e = (if 0 \<le> e then m * 10 ^ nat e else m / 10 ^ nat (- e))"

text \<open>The unsigned literal: its mathematical value, or None when no prefix is one.\<close>

definition unsignedLiteral :: "jsstring \<Rightarrow> jsnum option" where
  "unsignedLiteral s =
     (if isPrefix (js ''Infinity'') s then Some PosInf
      else
        let ip = takeWhile isDigit s;
            r = dropWhile isDigit s
        in case r of
             c # r' \<Rightarrow>
               if c = 46 then
                 (let fp = takeWhile isDigit r';
                      r'' = dropWhile isDigit r'
                  in if ip = [] \<and> fp = [] then None
                     else Some (toDouble (scale10
                       (real (digitsValue ip) + real (digitsValue fp) / 10 ^ length fp)
                       (exponentPart r''))))
               else if ip = [] then None
               else Some (toDouble (scale10 (real (digitsValue ip)) (exponentPart r)))
           | [] \<Rightarrow> if ip = [] then None else Some (toDouble (real (digitsValue ip))))"

definition js_neg :: "jsnum \<Rightarrow> jsnum" where
  "js_neg x = (case x of Fin r \<Rightarrow> Fin (- r) | PosInf \<Rightarrow> NegInf | NegInf \<Rightarrow> PosInf | NaN \<Rightarrow> NaN)"

definition parseFloat :: "jsstring \<Rightarrow> jsnum" where
  "parseFloat s =
     (let t = trimStart s
      in case t of
           [] \<Rightarrow> NaN
         | c # r \<Rightarrow>
             if c = 45 then (case unsignedLiteral r of None \<Rightarrow> NaN | Some v \<Rightarrow> js_neg v)
             else if c = 43 then (case unsignedLiteral r of None \<Rightarrow> NaN | Some v \<Rightarrow> v)
             else (case unsignedLiteral t of None \<Rightarrow> NaN | Some v \<Rightarrow> v))"

section \<open>Formatters: \<open>lib/utils/formatters.ts\<close>\<close>

text \<open>
  \<open>toNumber(value: string | null)\<close>: null is 0; otherwise every comma is removed and the
  rest is handed to \<open>parseFloat\<close>.
\<close>

definition toNumber :: "jsstring option \<Rightarrow> jsnum" where
  "toNumber v =
     (case v of
        None \<Rightarrow> Fin 0
      | Some s \<Rightarrow> (let cleaned = filter (\<lambda>c. c \<noteq> 44) s in parseFloat cleaned))"

section \<open>Arrays\<close>

text \<open>
  \<open>Array.prototype.sort(compare)\<close> is stable, and with a consistent comparator its result is
  the one stable arrangement in comparator order, whatever algorithm the engine runs.  The
  model computes that arrangement by insertion: an element goes in front of the first
  element it does not compare greater than.
\<close>

fun insertBy :: "('a \<Rightarrow> 'a \<Rightarrow> int) \<Rightarrow> 'a \<Rightarrow> 'a list \<Rightarrow> 'a list" where
  "insertBy compare x [] = [x]"
| "insertBy compare x (y # ys) =
     (if compare x y \<le> 0 then x # y # ys else y # insertBy compare x ys)"

definition js_sort :: "('a \<Rightarrow> 'a \<Rightarrow> int) \<Rightarrow> 'a list \<Rightarrow> 'a list" where
  "js_sort compare xs = foldr (insertBy compare) xs []"

section \<open>Data model: \<open>types/db\<close>\<close>

text \<open>
  \<open>Financial\<close> is a row of the \<open>financials\<close> table: \<open>id\<close>, \<open>clubId\<close> and \<open>year\<close> are
  integers, the \<open>numeric\<close> columns arrive as text or null.  Only the fields the utilities
  read are kept (\<open>revenueYoy\<close>, the breakdown columns and the timestamps are never read).
  Field names carry the prefix \<open>f_\<close>, those of \<open>FinancialMetric\<close> the prefix \<open>m_\<close>.
\<close>

record Financial =
  f_id :: int
  f_clubId :: int
  f_year :: int
  f_revenue :: "jsstring option"
  f_ebitda :: "jsstring option"
  f_wages :: "jsstring option"

text \<open>\<open>FinancialMetric\<close>: \<open>wages\<close>, \<open>yoy_change\<close> and \<open>yoy_percentage\<close> are \<open>number | null\<close>.\<close>

record FinancialMetric =
  m_id :: int
  m_club_id :: int
  m_year :: int
  m_revenue :: jsnum
  m_ebitda :: jsnum
  m_wages :: "jsnum option"
  yoy_change :: "jsnum option"
  yoy_percentage :: "jsnum option"

section \<open>Financial utilities: \<open>lib/utils/financials.ts\<close>\<close>

text \<open>The comparators \<open>(a, b) => a.year - b.year\<close> of the two element types.\<close>

definition byYear :: "Financial \<Rightarrow> Financial \<Rightarrow> int" where
  "byYear a b = f_year a - f_year b"

definition byMetricYear :: "FinancialMetric \<Rightarrow> FinancialMetric \<Rightarrow> int" where
  "byMetricYear a b = m_year a - m_year b"

text \<open>The callback of \<open>sorted.map((current, index) => ...)\<close> in \<open>calculateYoY\<close>
  (\<open>sorted'\<close> is the source's \<open>sorted\<close>).\<close>

definition yoyEntry :: "Financial list \<Rightarrow> nat \<Rightarrow> FinancialMetric" where
  "yoyEntry sorted' index =
     (let current = sorted' ! index;
          revenue = toNumber (f_revenue current);
          ebitda = toNumber (f_ebitda current);
          wages = toNumber (f_wages current)
      in if index = 0 then
           \<lparr> m_id = f_id current, m_club_id = f_clubId current, m_year = f_year current,
             m_revenue = revenue, m_ebitda = ebitda, m_wages = Some wages,
             yoy_change = None, yoy_percentage = None \<rparr>
         else
           let previous = sorted' ! (index - 1);
               previousRevenue = toNumber (f_revenue previous);
               change = js_sub revenue previousRevenue;
               percentage =
                 (if js_strict_ne previousRevenue (Fin 0)
                  then Some (js_mul (js_div change previousRevenue) (Fin 100))
                  else None)
           in \<lparr> m_id = f_id current, m_club_id = f_clubId current, m_year = f_year current,
                m_revenue = revenue, m_ebitda = ebitda, m_wages = Some wages,
                yoy_change = Some change, yoy_percentage = percentage \<rparr>)"

definition calculateYoY :: "Financial list \<Rightarrow> FinancialMetric list" where
  "calculateYoY financials =
     (let sorted' = js_sort byYear financials
      in map (yoyEntry sorted') [0 ..< length sorted'])"

text \<open>The closing formula of both CAGR functions.\<close>

definition cagrFormula :: "jsnum \<Rightarrow> jsnum \<Rightarrow> int \<Rightarrow> jsnum" where
  "cagrFormula firstRevenue lastRevenue years =
     js_mul (js_sub (js_pow (js_div lastRevenue firstRevenue)
                            (js_div (Fin 1) (Fin (of_int years))))
                    (Fin 1))
            (Fin 100)"

definition calculateCAGR :: "Financial list \<Rightarrow> jsnum option" where
  "calculateCAGR financials =
     (if length financials < 2 then None
      else
        let sorted' = js_sort byYear financials;
            firstRevenue = toNumber (f_revenue (sorted' ! 0));
            lastRevenue = toNumber (f_revenue (sorted' ! (length sorted' - 1)))
        in if js_le firstRevenue (Fin 0) \<or> js_le lastRevenue (Fin 0) then None
           else
             let years = f_year (sorted' ! (length sorted' - 1)) - f_year (sorted' ! 0)
             in if years \<le> 0 then None
                else Some (cagrFormula firstRevenue lastRevenue years))"

definition calculateCAGRFromMetrics :: "FinancialMetric list \<Rightarrow> jsnum option" where
  "calculateCAGRFromMetrics metrics =
     (if length metrics < 2 then None
      else
        let sorted' = js_sort byMetricYear metrics;
            firstRevenue = m_revenue (sorted' ! 0);
            lastRevenue = m_revenue (sorted' ! (length sorted' - 1))
        in if js_le firstRevenue (Fin 0) \<or> js_le lastRevenue (Fin 0) then None
           else
             let years = m_year (sorted' ! (length sorted' - 1)) - m_year (sorted' ! 0)
             in if years \<le> 0 then None
                else Some (cagrFormula firstRevenue lastRevenue years))"

section \<open>Vocabulary of the statements\<close>

text \<open>
  What one output metric takes over from its input record: the identifying fields and the
  three parsed amounts.  Two lists of these agree when the same records appear in the same
  order.
\<close>

definition metricCore ::
    "FinancialMetric \<Rightarrow> int \<times> int \<times> int \<times> jsnum \<times> jsnum \<times> jsnum option" where
  "metricCore m = (m_id m, m_club_id m, m_year m, m_revenue m, m_ebitda m, m_wages m)"

definition financialCore ::
    "Financial \<Rightarrow> int \<times> int \<times> int \<times> jsnum \<times> jsnum \<times> jsnum option" where
  "financialCore f =
     (f_id f, f_clubId f, f_year f, toNumber (f_revenue f), toNumber (f_ebitda f),
      Some (toNumber (f_wages f)))"

text \<open>Sample rows: club 1, with the revenue text given and no EBITDA or wages.\<close>

definition sampleRow :: "int \<Rightarrow> int \<Rightarrow> jsstring option \<Rightarrow> Financial" where
  "sampleRow i y r =
     \<lparr> f_id = i, f_clubId = 1, f_year = y, f_revenue = r, f_ebitda = None, f_wages = None \<rparr>"

text \<open>Three rows out of order, two of them of the same year.\<close>

definition sampleRows :: "Financial list" where
  "sampleRows =
     [sampleRow 2 2021 (Some (js ''120,000,000'')),
      sampleRow 1 2020 (Some (js ''100000000'')),
      sampleRow 3 2021 None]"

text \<open>
  The first and the last record in year order, read off the library's stable sort (for
  records of equal year, the earliest of the lowest year and the latest of the highest).
\<close>

definition firstByYear :: "Financial list \<Rightarrow> Financial" where
  "firstByYear fs = hd (sort_key f_year fs)"

definition lastByYear :: "Financial list \<Rightarrow> Financial" where
  "lastByYear fs = last (sort_key f_year fs)"

text \<open>Two rows in order: 100000000 in 2020, 121000000 in 2021.\<close>

definition growthRows :: "Financial list" where
  "growthRows =
     [sampleRow 1 2020 (Some (js ''100000000'')),
      sampleRow 2 2021 (Some (js ''121000000''))]"

section \<open>The utilities over a store of arrays\<close>

text \<open>
  A JavaScript array is an object behind a reference, and \<open>sort\<close> reorders it in place.
  The store maps a reference to the array's elements; references below \<open>next_ref\<close> are
  allocated.  \<open>[...xs]\<close> allocates a new array holding the elements of \<open>xs\<close>;
  \<open>xs.sort(compare)\<close> overwrites the elements of \<open>xs\<close> and returns \<open>xs\<close> itself.
\<close>

record 'a store =
  arrays :: "nat \<Rightarrow> 'a list"
  next_ref :: nat

definition spread :: "'a store \<Rightarrow> nat \<Rightarrow> nat \<times> 'a store" where
  "spread st xs =
     (next_ref st,
      st\<lparr> arrays := (arrays st)(next_ref st := arrays st xs),
          next_ref := Suc (next_ref st) \<rparr>)"

definition sort_in_place :: "('a \<Rightarrow> 'a \<Rightarrow> int) \<Rightarrow> 'a store \<Rightarrow> nat \<Rightarrow> nat \<times> 'a store" where
  "sort_in_place compare st xs =
     (xs, st\<lparr> arrays := (arrays st)(xs := js_sort compare (arrays st xs)) \<rparr>)"

text \<open>
  The three utilities with the array argument passed by reference.  Each returns its
  result and the store it leaves (the array built by \<open>map\<close> is returned by value).
\<close>

definition calculateYoY_st :: "Financial store \<Rightarrow> nat \<Rightarrow> FinancialMetric list \<times> Financial store" where
  "calculateYoY_st st financials =
     (let (copy, st1) = spread st financials;
          (sorted', st2) = sort_in_place byYear st1 copy
      in (map (yoyEntry (arrays st2 sorted')) [0 ..< length (arrays st2 sorted')], st2))"

definition calculateCAGR_st :: "Financial store \<Rightarrow> nat \<Rightarrow> jsnum option \<times> Financial store" where
  "calculateCAGR_st st financials =
     (if length (arrays st financials) < 2 then (None, st)
      else
        let (copy, st1) = spread st financials;
            (sorted', st2) = sort_in_place byYear st1 copy;
            firstRevenue = toNumber (f_revenue (arrays st2 sorted' ! 0));
            lastRevenue =
              toNumber (f_revenue (arrays st2 sorted' ! (length (arrays st2 sorted') - 1)))
        in if js_le firstRevenue (Fin 0) \<or> js_le lastRevenue (Fin 0) then (None, st2)
           else
             let years = f_year (arrays st2 sorted' ! (length (arrays st2 sorted') - 1))
                           - f_year (arrays st2 sorted' ! 0)
             in if years \<le> 0 then (None, st2)
                else (Some (cagrFormula firstRevenue lastRevenue years), st2))"

definition calculateCAGRFromMetrics_st ::
    "FinancialMetric store \<Rightarrow> nat \<Rightarrow> jsnum option \<times> FinancialMetric store" where
  "calculateCAGRFromMetrics_st st metrics =
     (if length (arrays st metrics) < 2 then (None, st)
      else
        let (copy, st1) = spread st metrics;
            (sorted', st2) = sort_in_place byMetricYear st1 copy;
            firstRevenue = m_revenue (arrays st2 sorted' ! 0);
            lastRevenue = m_revenue (arrays st2 sorted' ! (length (arrays st2 sorted') - 1))
        in if js_le firstRevenue (Fin 0) \<or> js_le lastRevenue (Fin 0) then (None, st2)
           else
             let years = m_year (arrays st2 sorted' ! (length (arrays st2 sorted') - 1))
                           - m_year (arrays st2 sorted' ! 0)
             in if years \<le> 0 then (None, st2)
                else (Some (cagrFormula firstRevenue lastRevenue years), st2))"

text \<open>A store whose only array, at reference 0, holds the sample rows.\<close>

definition sampleStore :: "Financial store" where
  "sampleStore = \<lparr> arrays = (\<lambda>_. [])(0 := sampleRows), next_ref = 1 \<rparr>"

text \<open>A store whose only array, at reference 0, holds two metrics, the later year first.\<close>

definition sampleMetric :: "int \<Rightarrow> int \<Rightarrow> jsnum \<Rightarrow> FinancialMetric" where
  "sampleMetric i y r =
     \<lparr> m_id = i, m_club_id = 1, m_year = y, m_revenue = r, m_ebitda = Fin 0,
       m_wages = Some (Fin 0), yoy_change = None, yoy_percentage = None \<rparr>"

definition sampleMetricStore :: "FinancialMetric store" where
  "sampleMetricStore =
     \<lparr> arrays = (\<lambda>_. [])(0 := [sampleMetric 2 2021 (Fin 121), sampleMetric 1 2020 (Fin 100)]),
       next_ref = 1 \<rparr>"







section \<open>More of \<open>lib/utils/formatters.ts\<close>: currencies\<close>












section \<open>Number to text\<close>









section \<open>The ask route: \<open>app/api/ask/route.ts\<close>\<close>

subsection \<open>Year extraction\<close>









subsection \<open>Club-name extraction\<close>









subsection \<open>The handler\<close>








section \<open>Vocabulary of the statements about the ask route\<close>













section \<open>Evaluation of the number and string primitives\<close>

lemmas parse_eval =
  toNumber_def js_def parseFloat_def trimStart_def isWhiteSpace_def unsignedLiteral_def
  isPrefix_def isDigit_def toDouble_def dbl_overflow_def dbl_underflow_def scale10_def
  exponentPart_def js_neg_def

lemma toNumber_None: "toNumber None = Fin 0"
  by (simp add: toNumber_def)

lemma toNumber_samples:
  "toNumber (Some (js ''120,000,000'')) = Fin 120000000"
  "toNumber (Some (js ''100000000'')) = Fin 100000000"
  "toNumber (Some (js ''121000000'')) = Fin 121000000"
  by (simp_all add: parse_eval)

section \<open>Sorting by year\<close>

lemma insertBy_insort_key:
  "insertBy (\<lambda>a b. key a - key b) x ys = insort_key key x ys"
  for key :: "'a \<Rightarrow> int"
  by (induction ys) auto

lemma js_sort_sort_key:
  "js_sort (\<lambda>a b. key a - key b) xs = sort_key key xs"
  for key :: "'a \<Rightarrow> int"
  by (induction xs) (simp_all add: js_sort_def insertBy_insort_key)

lemma js_sort_byYear: "js_sort byYear xs = sort_key f_year xs"
  using js_sort_sort_key [of f_year xs] by (simp add: byYear_def [abs_def])

lemma js_sort_byMetricYear: "js_sort byMetricYear xs = sort_key m_year xs"
  using js_sort_sort_key [of m_year xs] by (simp add: byMetricYear_def [abs_def])

section \<open>\<open>calculateYoY\<close>\<close>

lemma length_calculateYoY: "length (calculateYoY fs) = length fs"
  by (simp add: calculateYoY_def js_sort_byYear)

lemma nth_calculateYoY:
  "i < length fs \<Longrightarrow> calculateYoY fs ! i = yoyEntry (sort_key f_year fs) i"
  by (simp add: calculateYoY_def js_sort_byYear)

lemma m_year_yoyEntry: "m_year (yoyEntry srt i) = f_year (srt ! i)"
  by (simp add: yoyEntry_def Let_def)

lemma m_revenue_yoyEntry: "m_revenue (yoyEntry srt i) = toNumber (f_revenue (srt ! i))"
  by (simp add: yoyEntry_def Let_def)

lemma metricCore_yoyEntry: "metricCore (yoyEntry srt i) = financialCore (srt ! i)"
  by (simp add: yoyEntry_def Let_def metricCore_def financialCore_def)

lemma map_m_year_calculateYoY:
  "map m_year (calculateYoY fs) = map f_year (sort_key f_year fs)"
  by (rule nth_equalityI) (simp_all add: length_calculateYoY nth_calculateYoY m_year_yoyEntry)


lemma map_metricCore_calculateYoY:
  "map metricCore (calculateYoY fs) = map financialCore (sort_key f_year fs)"
  by (rule nth_equalityI)
     (simp_all add: length_calculateYoY nth_calculateYoY metricCore_yoyEntry)

lemma sorted_calculateYoY: "sorted (map m_year (calculateYoY fs))"
  by (simp add: map_m_year_calculateYoY)

lemma filter_year_calculateYoY:
  "map metricCore (filter (\<lambda>m. m_year m = k) (calculateYoY fs)) =
   map financialCore (filter (\<lambda>f. f_year f = k) fs)"
proof -
  have "map metricCore (filter (\<lambda>m. m_year m = k) (calculateYoY fs)) =
        filter (\<lambda>c. fst (snd (snd c)) = k) (map metricCore (calculateYoY fs))"
    by (simp add: filter_map comp_def metricCore_def)
  also have "\<dots> = filter (\<lambda>c. fst (snd (snd c)) = k) (map financialCore (sort_key f_year fs))"
    by (simp only: map_metricCore_calculateYoY)
  also have "\<dots> = map financialCore (filter (\<lambda>f. f_year f = k) (sort_key f_year fs))"
    by (simp add: filter_map comp_def financialCore_def)
  also have "\<dots> = map financialCore (filter (\<lambda>f. f_year f = k) fs)"
    by (simp only: sort_key_stable)
  finally show ?thesis .
qed

text \<open>The sample rows, sorted and derived.\<close>

lemma js_sort_sampleRows:
  "js_sort byYear sampleRows =
     [sampleRow 1 2020 (Some (js ''100000000'')),
      sampleRow 2 2021 (Some (js ''120,000,000'')),
      sampleRow 3 2021 None]"
  by (simp add: js_sort_def byYear_def sampleRows_def sampleRow_def)

lemma calculateYoY_sampleRows:
  "calculateYoY sampleRows =
     [\<lparr> m_id = 1, m_club_id = 1, m_year = 2020, m_revenue = Fin 100000000,
        m_ebitda = Fin 0, m_wages = Some (Fin 0), yoy_change = None, yoy_percentage = None \<rparr>,
      \<lparr> m_id = 2, m_club_id = 1, m_year = 2021, m_revenue = Fin 120000000,
        m_ebitda = Fin 0, m_wages = Some (Fin 0), yoy_change = Some (Fin 20000000),
        yoy_percentage = Some (Fin 20) \<rparr>,
      \<lparr> m_id = 3, m_club_id = 1, m_year = 2021, m_revenue = Fin 0,
        m_ebitda = Fin 0, m_wages = Some (Fin 0), yoy_change = Some (Fin (- 120000000)),
        yoy_percentage = Some (Fin (- 100)) \<rparr>]"
  by (simp add: calculateYoY_def js_sort_sampleRows yoyEntry_def Let_def sampleRow_def
      js_strict_ne_def toNumber_samples toNumber_None toDouble_def dbl_overflow_def
      dbl_underflow_def upt_rec_numeral)

text \<open>
  C3.  The output of \<open>calculateYoY\<close> has the length of its input, its years ascend, and the
  records of any one year \<open>k\<close> appear in the output in the order they have in the input.
\<close>

theorem calculateYoY_length_sorted_stable:
  "length (calculateYoY fs) = length fs \<and>
   sorted (map m_year (calculateYoY fs)) \<and>
   map metricCore (filter (\<lambda>m. m_year m = k) (calculateYoY fs)) =
     map financialCore (filter (\<lambda>f. f_year f = k) fs)"
  by (simp only: length_calculateYoY sorted_calculateYoY filter_year_calculateYoY)

theorem calculateYoY_length_sorted_stable_witness:
  "length (calculateYoY sampleRows) = 3 \<and>
   map m_year (calculateYoY sampleRows) = [2020, 2021, 2021] \<and>
   map m_id (filter (\<lambda>m. m_year m = 2021) (calculateYoY sampleRows)) = [2, 3] \<and>
   map f_id (filter (\<lambda>f. f_year f = 2021) sampleRows) = [2, 3] \<and>
   map metricCore (filter (\<lambda>m. m_year m = 2021) (calculateYoY sampleRows)) =
     map financialCore (filter (\<lambda>f. f_year f = 2021) sampleRows)"
  using calculateYoY_length_sorted_stable [of sampleRows 2021]
  by (simp add: calculateYoY_sampleRows) (simp add: sampleRows_def sampleRow_def)

text \<open>
  C1.  In the output of \<open>calculateYoY\<close> the first element has no year-over-year change and
  no percentage.  Every later element follows its predecessor in year order (equal or
  later year, gaps allowed); its change is its revenue minus the predecessor's revenue; its
  percentage is null exactly when the predecessor's revenue is 0, and is otherwise the
  change divided by the predecessor's revenue, times 100.
\<close>

theorem calculateYoY_yoy_fields:
  assumes "i < length (calculateYoY fs)"
  shows "(i = 0 \<longrightarrow>
            yoy_change (calculateYoY fs ! i) = None \<and>
            yoy_percentage (calculateYoY fs ! i) = None) \<and>
         (0 < i \<longrightarrow>
            m_year (calculateYoY fs ! (i - 1)) \<le> m_year (calculateYoY fs ! i) \<and>
            yoy_change (calculateYoY fs ! i) =
              Some (js_sub (m_revenue (calculateYoY fs ! i))
                           (m_revenue (calculateYoY fs ! (i - 1)))) \<and>
            (yoy_percentage (calculateYoY fs ! i) = None \<longleftrightarrow>
               m_revenue (calculateYoY fs ! (i - 1)) = Fin 0) \<and>
            (m_revenue (calculateYoY fs ! (i - 1)) \<noteq> Fin 0 \<longrightarrow>
               yoy_percentage (calculateYoY fs ! i) =
                 Some (js_mul
                   (js_div (js_sub (m_revenue (calculateYoY fs ! i))
                                   (m_revenue (calculateYoY fs ! (i - 1))))
                           (m_revenue (calculateYoY fs ! (i - 1))))
                   (Fin 100))))"
proof -
  from assms have i: "i < length fs"
    by (simp add: length_calculateYoY)
  have ascending: "m_year (calculateYoY fs ! (i - 1)) \<le> m_year (calculateYoY fs ! i)"
    if "0 < i"
  proof -
    from that assms
    have "map m_year (calculateYoY fs) ! (i - 1) \<le> map m_year (calculateYoY fs) ! i"
      by (intro sorted_nth_mono [OF sorted_calculateYoY]) simp_all
    with that assms show ?thesis by simp
  qed
  show ?thesis
  proof (cases "i = 0")
    case True
    with i show ?thesis
      by (simp add: nth_calculateYoY yoyEntry_def Let_def)
  next
    case False
    with i have "i - 1 < length fs" by simp
    with False i ascending show ?thesis
      by (simp add: nth_calculateYoY yoyEntry_def Let_def js_strict_ne_def)
  qed
qed

theorem calculateYoY_yoy_fields_witness:
  "2 < length (calculateYoY sampleRows) \<and>
   yoy_change (calculateYoY sampleRows ! 0) = None \<and>
   yoy_percentage (calculateYoY sampleRows ! 0) = None \<and>
   yoy_change (calculateYoY sampleRows ! 1) = Some (Fin 20000000) \<and>
   yoy_percentage (calculateYoY sampleRows ! 1) = Some (Fin 20) \<and>
   m_revenue (calculateYoY sampleRows ! 1) = Fin 120000000 \<and>
   yoy_change (calculateYoY sampleRows ! 2) =
     Some (js_sub (m_revenue (calculateYoY sampleRows ! 2)) (Fin 120000000))"
proof -
  have len: "0 < length (calculateYoY sampleRows)" "1 < length (calculateYoY sampleRows)"
    "2 < length (calculateYoY sampleRows)"
    by (simp_all add: calculateYoY_sampleRows)
  from calculateYoY_yoy_fields [OF len(1)] calculateYoY_yoy_fields [OF len(2)]
    calculateYoY_yoy_fields [OF len(3)]
  show ?thesis
    by (simp add: calculateYoY_sampleRows)
qed

section \<open>\<open>calculateCAGR\<close> and \<open>calculateCAGRFromMetrics\<close>\<close>

lemma sorted_hd_le: "sorted zs \<Longrightarrow> y \<in> set zs \<Longrightarrow> hd zs \<le> y"
  for zs :: "int list"
  by (cases zs) auto

lemma sorted_le_last: "sorted zs \<Longrightarrow> y \<in> set zs \<Longrightarrow> y \<le> last zs"
  for zs :: "int list"
  by (induction zs) auto

lemma hd_sort_key_Min:
  "xs \<noteq> [] \<Longrightarrow> key (hd (sort_key key xs)) = Min (key ` set xs)"
  for key :: "'a \<Rightarrow> int"
proof -
  assume ne: "xs \<noteq> []"
  let ?s = "sort_key key xs"
  have s_ne: "?s \<noteq> []" using ne by (metis length_0_conv length_sort)
  have srt: "sorted (map key ?s)" by simp
  have set_eq: "set (map key ?s) = key ` set xs" by simp
  have le: "key (hd ?s) \<le> y" if "y \<in> key ` set xs" for y
  proof -
    from that have "y \<in> set (map key ?s)" by (simp only: set_eq)
    from sorted_hd_le [OF srt this] s_ne show ?thesis by (simp add: hd_map)
  qed
  have "hd ?s \<in> set ?s" using s_ne by (rule hd_in_set)
  then have "hd ?s \<in> set xs" by (simp only: set_sort)
  then have mem: "key (hd ?s) \<in> key ` set xs" by (rule imageI)
  show ?thesis
    using le mem by (intro Min_eqI [symmetric]) auto
qed

lemma last_sort_key_Max:
  "xs \<noteq> [] \<Longrightarrow> key (last (sort_key key xs)) = Max (key ` set xs)"
  for key :: "'a \<Rightarrow> int"
proof -
  assume ne: "xs \<noteq> []"
  let ?s = "sort_key key xs"
  have s_ne: "?s \<noteq> []" using ne by (metis length_0_conv length_sort)
  have srt: "sorted (map key ?s)" by simp
  have set_eq: "set (map key ?s) = key ` set xs" by simp
  have le: "y \<le> key (last ?s)" if "y \<in> key ` set xs" for y
  proof -
    from that have "y \<in> set (map key ?s)" by (simp only: set_eq)
    from sorted_le_last [OF srt this] s_ne show ?thesis by (simp add: last_map)
  qed
  have "last ?s \<in> set ?s" using s_ne by (rule last_in_set)
  then have "last ?s \<in> set xs" by (simp only: set_sort)
  then have mem: "key (last ?s) \<in> key ` set xs" by (rule imageI)
  show ?thesis
    using le mem by (intro Max_eqI [symmetric]) auto
qed

lemma year_span_nonneg:
  "xs \<noteq> [] \<Longrightarrow> key (hd (sort_key key xs)) \<le> key (last (sort_key key xs))"
  for key :: "'a \<Rightarrow> int"
  by (simp add: hd_sort_key_Min last_sort_key_Max)

lemma calculateCAGR_unfold:
  "calculateCAGR fs =
     (if length fs < 2 then None
      else if js_le (toNumber (f_revenue (firstByYear fs))) (Fin 0) \<or>
              js_le (toNumber (f_revenue (lastByYear fs))) (Fin 0) then None
      else if f_year (lastByYear fs) - f_year (firstByYear fs) \<le> 0 then None
      else Some (cagrFormula (toNumber (f_revenue (firstByYear fs)))
                             (toNumber (f_revenue (lastByYear fs)))
                             (f_year (lastByYear fs) - f_year (firstByYear fs))))"
proof (cases "length fs < 2")
  case True
  then show ?thesis by (simp add: calculateCAGR_def)
next
  case False
  then have ne: "sort_key f_year fs \<noteq> []"
    by (metis length_sort list.size(3) not_less0 not_less_eq numeral_2_eq_2 linorder_not_less zero_less_Suc)
  then have "sort_key f_year fs ! 0 = firstByYear fs"
    "sort_key f_year fs ! (length (sort_key f_year fs) - 1) = lastByYear fs"
    by (simp_all add: firstByYear_def lastByYear_def hd_conv_nth last_conv_nth)
  with False show ?thesis
    by (simp add: calculateCAGR_def js_sort_byYear Let_def del: length_sort)
qed

text \<open>
  C2.  \<open>calculateCAGR\<close> returns null exactly when there are fewer than two records, or the
  first or the last revenue in year order is \<open><= 0\<close>, or the first and last years are equal;
  in every other case it returns
  \<open>((lastRevenue / firstRevenue) ^ (1 / (lastYear - firstYear)) - 1) * 100\<close>.  The first
  and last years are the least and the greatest year of the input.
\<close>

theorem calculateCAGR_null_cases:
  "(calculateCAGR fs = None \<longleftrightarrow>
      length fs < 2 \<or>
      js_le (toNumber (f_revenue (firstByYear fs))) (Fin 0) \<or>
      js_le (toNumber (f_revenue (lastByYear fs))) (Fin 0) \<or>
      f_year (firstByYear fs) = f_year (lastByYear fs)) \<and>
   (calculateCAGR fs \<noteq> None \<longrightarrow>
      calculateCAGR fs =
        Some (js_mul
          (js_sub
            (js_pow
              (js_div (toNumber (f_revenue (lastByYear fs)))
                      (toNumber (f_revenue (firstByYear fs))))
              (js_div (Fin 1)
                      (Fin (of_int (f_year (lastByYear fs) - f_year (firstByYear fs))))))
            (Fin 1))
          (Fin 100))) \<and>
   (fs \<noteq> [] \<longrightarrow>
      f_year (firstByYear fs) = Min (f_year ` set fs) \<and>
      f_year (lastByYear fs) = Max (f_year ` set fs))"
proof -
  have span: "f_year (firstByYear fs) \<le> f_year (lastByYear fs)" if "\<not> length fs < 2"
  proof -
    from that have "fs \<noteq> []" by auto
    then show ?thesis
      unfolding firstByYear_def lastByYear_def by (rule year_span_nonneg)
  qed
  have null: "calculateCAGR fs = None \<longleftrightarrow>
      length fs < 2 \<or>
      js_le (toNumber (f_revenue (firstByYear fs))) (Fin 0) \<or>
      js_le (toNumber (f_revenue (lastByYear fs))) (Fin 0) \<or>
      f_year (firstByYear fs) = f_year (lastByYear fs)"
    using span by (auto simp: calculateCAGR_unfold)
  have val: "calculateCAGR fs \<noteq> None \<longrightarrow>
      calculateCAGR fs =
        Some (js_mul
          (js_sub
            (js_pow
              (js_div (toNumber (f_revenue (lastByYear fs)))
                      (toNumber (f_revenue (firstByYear fs))))
              (js_div (Fin 1)
                      (Fin (of_int (f_year (lastByYear fs) - f_year (firstByYear fs))))))
            (Fin 1))
          (Fin 100))"
    by (simp add: calculateCAGR_unfold cagrFormula_def)
  have ends: "fs \<noteq> [] \<longrightarrow>
      f_year (firstByYear fs) = Min (f_year ` set fs) \<and>
      f_year (lastByYear fs) = Max (f_year ` set fs)"
    by (simp add: firstByYear_def lastByYear_def hd_sort_key_Min last_sort_key_Max)
  from null val ends show ?thesis by (intro conjI)
qed

lemma firstByYear_growthRows: "firstByYear growthRows = sampleRow 1 2020 (Some (js ''100000000''))"
  by (simp add: firstByYear_def growthRows_def sampleRow_def)

lemma lastByYear_growthRows: "lastByYear growthRows = sampleRow 2 2021 (Some (js ''121000000''))"
  by (simp add: lastByYear_def growthRows_def sampleRow_def)

lemma calculateCAGR_growthRows: "calculateCAGR growthRows = Some (Fin 21)"
  by (simp add: calculateCAGR_unfold firstByYear_growthRows lastByYear_growthRows
      cagrFormula_def sampleRow_def toNumber_samples toDouble_def dbl_overflow_def
      dbl_underflow_def)
    (simp add: growthRows_def)

theorem calculateCAGR_null_cases_witness:
  "calculateCAGR growthRows = Some (Fin 21) \<and>
   f_year (firstByYear growthRows) = 2020 \<and>
   f_year (lastByYear growthRows) = 2021 \<and>
   Min (f_year ` set growthRows) = 2020 \<and>
   Max (f_year ` set growthRows) = 2021 \<and>
   calculateCAGR sampleRows = None \<and>
   toNumber (f_revenue (lastByYear sampleRows)) = Fin 0"
proof -
  have ne: "growthRows \<noteq> []" by (simp add: growthRows_def)
  have l: "lastByYear sampleRows = sampleRow 3 2021 None"
    by (simp add: lastByYear_def sampleRows_def sampleRow_def)
  have z: "toNumber (f_revenue (lastByYear sampleRows)) = Fin 0"
    by (simp add: l sampleRow_def toNumber_None)
  from calculateCAGR_null_cases [of growthRows] calculateCAGR_null_cases [of sampleRows] ne z
  show ?thesis
    by (simp add: calculateCAGR_growthRows firstByYear_growthRows lastByYear_growthRows
        sampleRow_def)
qed

lemma cagr_of_derived_metrics:
  "calculateCAGRFromMetrics (calculateYoY fs) = calculateCAGR fs"
proof (cases "length fs < 2")
  case True
  then show ?thesis
    by (simp add: calculateCAGRFromMetrics_def calculateCAGR_def length_calculateYoY)
next
  case False
  have srt: "js_sort byMetricYear (calculateYoY fs) = calculateYoY fs"
    by (simp only: js_sort_byMetricYear sort_key_id_if_sorted [OF sorted_calculateYoY])
  from False have i0: "0 < length fs" and il: "length fs - Suc 0 < length fs" by auto
  show ?thesis
    using False
    by (simp add: calculateCAGRFromMetrics_def calculateCAGR_def srt length_calculateYoY
        nth_calculateYoY [OF i0] nth_calculateYoY [OF il] m_year_yoyEntry m_revenue_yoyEntry
        js_sort_byYear Let_def)
qed

text \<open>
  C5.  \<open>calculateCAGRFromMetrics\<close> applied to the output of \<open>calculateYoY\<close> gives the value
  (or the null) that \<open>calculateCAGR\<close> gives on the raw records.
\<close>

theorem calculateCAGRFromMetrics_calculateYoY:
  "calculateCAGRFromMetrics (calculateYoY fs) = calculateCAGR fs"
  by (rule cagr_of_derived_metrics)

theorem calculateCAGRFromMetrics_calculateYoY_witness:
  "calculateCAGRFromMetrics (calculateYoY growthRows) = Some (Fin 21) \<and>
   calculateCAGR growthRows = Some (Fin 21) \<and>
   calculateCAGRFromMetrics (calculateYoY sampleRows) = None"
proof -
  have l: "lastByYear sampleRows = sampleRow 3 2021 None"
    by (simp add: lastByYear_def sampleRows_def sampleRow_def)
  have "calculateCAGR sampleRows = None"
    by (simp add: calculateCAGR_unfold l sampleRow_def toNumber_None)
  with calculateCAGRFromMetrics_calculateYoY [of growthRows]
    calculateCAGRFromMetrics_calculateYoY [of sampleRows]
  show ?thesis
    by (simp add: calculateCAGR_growthRows)
qed

section \<open>Null amounts\<close>

text \<open>
  C4 (as stated).  A record with null wages: the metric derived from it reports wages 0,
  not null.
\<close>

theorem calculateYoY_null_wages_counterexample:
  "f_wages (sampleRow 1 2020 (Some (js ''100000000''))) = None \<and>
   calculateYoY [sampleRow 1 2020 (Some (js ''100000000''))] =
     [\<lparr> m_id = 1, m_club_id = 1, m_year = 2020, m_revenue = Fin 100000000,
        m_ebitda = Fin 0, m_wages = Some (Fin 0), yoy_change = None, yoy_percentage = None \<rparr>] \<and>
   m_wages (hd (calculateYoY [sampleRow 1 2020 (Some (js ''100000000''))])) \<noteq> None"
  by (simp add: calculateYoY_def js_sort_def yoyEntry_def Let_def sampleRow_def
      toNumber_samples toNumber_None)

text \<open>
  C4 (amended).  The metric at position \<open>i\<close> is derived from the record at position \<open>i\<close> in
  year order, and each of its three amounts is \<open>toNumber\<close> of the record's field: wages is
  never null, and a null wages, revenue or EBITDA field is reported as 0.
\<close>

theorem calculateYoY_null_amounts:
  assumes "i < length fs"
  shows "m_wages (calculateYoY fs ! i) = Some (toNumber (f_wages (js_sort byYear fs ! i))) \<and>
         m_revenue (calculateYoY fs ! i) = toNumber (f_revenue (js_sort byYear fs ! i)) \<and>
         m_ebitda (calculateYoY fs ! i) = toNumber (f_ebitda (js_sort byYear fs ! i)) \<and>
         (f_wages (js_sort byYear fs ! i) = None \<longrightarrow>
            m_wages (calculateYoY fs ! i) = Some (Fin 0)) \<and>
         (f_revenue (js_sort byYear fs ! i) = None \<longrightarrow>
            m_revenue (calculateYoY fs ! i) = Fin 0) \<and>
         (f_ebitda (js_sort byYear fs ! i) = None \<longrightarrow>
            m_ebitda (calculateYoY fs ! i) = Fin 0)"
  using assms
  by (simp add: nth_calculateYoY js_sort_byYear yoyEntry_def Let_def toNumber_None)

theorem calculateYoY_null_amounts_witness:
  "f_wages (js_sort byYear sampleRows ! 2) = None \<and>
   f_revenue (js_sort byYear sampleRows ! 2) = None \<and>
   f_ebitda (js_sort byYear sampleRows ! 2) = None \<and>
   m_wages (calculateYoY sampleRows ! 2) = Some (Fin 0) \<and>
   m_revenue (calculateYoY sampleRows ! 2) = Fin 0 \<and>
   m_ebitda (calculateYoY sampleRows ! 2) = Fin 0"
proof -
  have len: "2 < length sampleRows" by (simp add: sampleRows_def)
  from calculateYoY_null_amounts [OF len] show ?thesis
    by (simp add: js_sort_sampleRows sampleRow_def toNumber_None)
qed

section \<open>The input array is left as it was\<close>

lemma calculateYoY_st_result:
  "fst (calculateYoY_st st xs) = calculateYoY (arrays st xs)"
  by (simp add: calculateYoY_st_def calculateYoY_def spread_def sort_in_place_def Let_def)

lemma calculateCAGR_st_result:
  "fst (calculateCAGR_st st xs) = calculateCAGR (arrays st xs)"
  by (simp add: calculateCAGR_st_def calculateCAGR_def spread_def sort_in_place_def Let_def)

lemma calculateCAGRFromMetrics_st_result:
  "fst (calculateCAGRFromMetrics_st st xs) = calculateCAGRFromMetrics (arrays st xs)"
  by (simp add: calculateCAGRFromMetrics_st_def calculateCAGRFromMetrics_def spread_def
      sort_in_place_def Let_def)

lemma calculateYoY_st_frame:
  "r < next_ref st \<Longrightarrow> arrays (snd (calculateYoY_st st xs)) r = arrays st r"
  by (simp add: calculateYoY_st_def spread_def sort_in_place_def Let_def)

lemma calculateCAGR_st_frame:
  "r < next_ref st \<Longrightarrow> arrays (snd (calculateCAGR_st st xs)) r = arrays st r"
  by (simp add: calculateCAGR_st_def spread_def sort_in_place_def Let_def)

lemma calculateCAGRFromMetrics_st_frame:
  "r < next_ref st \<Longrightarrow> arrays (snd (calculateCAGRFromMetrics_st st xs)) r = arrays st r"
  by (simp add: calculateCAGRFromMetrics_st_def spread_def sort_in_place_def Let_def)

text \<open>Sorting the argument itself, without the copy, would reorder it.\<close>

lemma sort_in_place_reorders:
  "arrays (snd (sort_in_place byYear sampleStore 0)) 0 \<noteq> arrays sampleStore 0"
  by (simp add: sort_in_place_def sampleStore_def js_sort_sampleRows)
     (simp add: sampleRows_def sampleRow_def)

text \<open>
  C10.  \<open>calculateYoY\<close>, \<open>calculateCAGR\<close> and \<open>calculateCAGRFromMetrics\<close> leave the array
  they are given as it was (same elements, same order): the sort runs on a fresh copy.
  Their results are those of the functions over the array's elements.
\<close>

theorem utilities_leave_input_array:
  assumes "financials < next_ref st" and "metrics < next_ref mt"
  shows "arrays (snd (calculateYoY_st st financials)) financials = arrays st financials \<and>
         arrays (snd (calculateCAGR_st st financials)) financials = arrays st financials \<and>
         arrays (snd (calculateCAGRFromMetrics_st mt metrics)) metrics = arrays mt metrics \<and>
         fst (calculateYoY_st st financials) = calculateYoY (arrays st financials) \<and>
         fst (calculateCAGR_st st financials) = calculateCAGR (arrays st financials) \<and>
         fst (calculateCAGRFromMetrics_st mt metrics) =
           calculateCAGRFromMetrics (arrays mt metrics)"
  using assms
  by (simp only: calculateYoY_st_frame calculateCAGR_st_frame calculateCAGRFromMetrics_st_frame
      calculateYoY_st_result calculateCAGR_st_result calculateCAGRFromMetrics_st_result)

theorem utilities_leave_input_array_witness:
  "0 < next_ref sampleStore \<and> 0 < next_ref sampleMetricStore \<and>
   arrays (snd (calculateYoY_st sampleStore 0)) 0 = sampleRows \<and>
   arrays (snd (calculateCAGR_st sampleStore 0)) 0 = sampleRows \<and>
   arrays (snd (calculateCAGRFromMetrics_st sampleMetricStore 0)) 0 =
     [sampleMetric 2 2021 (Fin 121), sampleMetric 1 2020 (Fin 100)] \<and>
   arrays (snd (calculateYoY_st sampleStore 0)) 1 = js_sort byYear sampleRows \<and>
   js_sort byYear sampleRows \<noteq> sampleRows"
proof -
  have a: "0 < next_ref sampleStore" by (simp add: sampleStore_def)
  have b: "0 < next_ref sampleMetricStore" by (simp add: sampleMetricStore_def)
  have c: "arrays (snd (calculateYoY_st sampleStore 0)) 1 = js_sort byYear sampleRows"
    by (simp add: calculateYoY_st_def spread_def sort_in_place_def Let_def sampleStore_def)
  have d: "js_sort byYear sampleRows \<noteq> sampleRows"
    by (simp add: js_sort_sampleRows) (simp add: sampleRows_def sampleRow_def)
  from utilities_leave_input_array [OF a b] a b c d show ?thesis
    by (simp add: sampleStore_def sampleMetricStore_def)
qed

section \<open>The range of the CAGR functions\<close>












lemma js_le_Fin_zero: "js_le (Fin a) (Fin 0) \<longleftrightarrow> a \<le> 0"
  by simp




















section \<open>Year extraction\<close>
















section \<open>Club-name extraction\<close>

























section \<open>The printed numbers\<close>




























section \<open>The answer of the ask route\<close>


































end
